theory Spec2Isabelle
  imports Complex_Main "HOL-Library.AList"
begin

section \<open>Data model of \<open>trading_client.py\<close>\<close>

text \<open>
  The enums of the client. Python floats are modelled as \<open>real\<close>, Python ints as \<open>int\<close>,
  strings as \<open>string\<close>. The creation timestamp of an order is not modelled: no operation
  of the client reads it.
\<close>

datatype OrderSide = BUY | SELL

datatype OrderType = MARKET | LIMIT | STOP | STOP_LIMIT

datatype OrderStatus = PENDING | SUBMITTED | FILLED | PARTIALLY_FILLED | CANCELLED | REJECTED

record Position =
  pos_symbol :: string
  pos_quantity :: int
  avg_price :: real
  unrealized_pnl :: real
  realized_pnl :: real

record Order =
  order_id :: string
  symbol :: string
  side :: OrderSide
  quantity :: int
  order_type :: OrderType
  price :: "real option"
  stop_price :: "real option"
  status :: OrderStatus
  filled_quantity :: int
  filled_price :: real

record AccountInfo =
  account_id :: string
  balance :: real
  buying_power :: real
  acct_daily_pnl :: real
  acct_unrealized_pnl :: real
  acct_realized_pnl :: real
  acct_positions :: "Position list"

text \<open>The part of \<open>config.py\<close> that the client reads.\<close>

record Config =
  rithmic_user :: string
  max_contracts :: int
  max_daily_loss :: real

section \<open>The Broker Link\<close>

text \<open>
  The venue is reached through \<open>self._client\<close>. Every call the client makes is recorded
  in a log; the venue's answer to a call may depend on the calls made before it and on the
  call itself. An answer is either an exception (\<open>Raised\<close>) or a value.
\<close>

datatype RithmicOrderType = R_MARKET | R_LIMIT | R_STOP_MARKET | R_STOP_LIMIT

datatype broker_call =
    SubmitOrder string string string int RithmicOrderType "real option" "real option"
  | CancelOrder string
  | CancelAllOrders
  | GetPositions
  | GetAccountInfo

datatype 'a outcome = Raised | Returned 'a

text \<open>
  The dictionaries the venue returns are read with \<open>.get(key, default)\<close>, so each key
  may be missing.
\<close>

record position_payload =
  pp_symbol :: "string option"
  pp_quantity :: "int option"
  pp_avg_price :: "real option"
  pp_unrealized_pnl :: "real option"
  pp_realized_pnl :: "real option"

record account_payload =
  ap_account_id :: "string option"
  ap_balance :: "real option"
  ap_buying_power :: "real option"
  ap_daily_pnl :: "real option"
  ap_unrealized_pnl :: "real option"
  ap_realized_pnl :: "real option"

record world =
  venue_submit_order :: "broker_call list \<Rightarrow> broker_call \<Rightarrow> string option outcome"
  venue_cancel_order :: "broker_call list \<Rightarrow> string \<Rightarrow> unit outcome"
  venue_cancel_all_orders :: "broker_call list \<Rightarrow> unit outcome"
  venue_get_positions :: "broker_call list \<Rightarrow> position_payload list outcome"
  venue_get_account_info :: "broker_call list \<Rightarrow> account_payload outcome"
  clock :: "broker_call list \<Rightarrow> string"

section \<open>The client state\<close>

text \<open>
  The fields of \<open>TradingClient\<close> that the order and position operations use, together
  with the log of Broker Link calls and the log of \<open>order_update\<close> notifications.
  The dictionaries are association lists in insertion order, updated with
  \<open>AList.update\<close>, which keeps the place of an existing key as a Python dict does.
  Each coroutine is run to completion: no other task runs between two of its awaits.
\<close>

record client =
  config :: Config
  connected :: bool
  positions :: "(string \<times> Position) list"
  orders :: "(string \<times> Order) list"
  account_info :: "AccountInfo option"
  daily_pnl :: real
  trading_enabled :: bool
  calls :: "broker_call list"
  events :: "Order list"

text \<open>The state that \<open>__init__\<close> builds.\<close>

definition init_client :: "Config \<Rightarrow> client" where
  "init_client cfg =
     \<lparr> config = cfg, connected = False, positions = [], orders = [], account_info = None,
       daily_pnl = 0, trading_enabled = True, calls = [], events = [] \<rparr>"

datatype error = RuntimeError string | HTTPException nat

abbreviation NotConnected :: error where
  "NotConnected \<equiv> RuntimeError ''Not connected to Rithmic''"

section \<open>Order management\<close>

fun order_type_map :: "OrderType \<Rightarrow> RithmicOrderType" where
  "order_type_map MARKET = R_MARKET"
| "order_type_map LIMIT = R_LIMIT"
| "order_type_map STOP = R_STOP_MARKET"
| "order_type_map STOP_LIMIT = R_STOP_LIMIT"

definition side_code :: "OrderSide \<Rightarrow> string" where
  "side_code sd = (if sd = BUY then ''B'' else ''S'')"

definition capped :: "client \<Rightarrow> int \<Rightarrow> int" where
  "capped s qty = (if qty > max_contracts (config s) then max_contracts (config s) else qty)"

definition submit_call ::
  "string \<Rightarrow> OrderSide \<Rightarrow> int \<Rightarrow> OrderType \<Rightarrow> real option \<Rightarrow> real option \<Rightarrow> broker_call" where
  "submit_call smb sd qty ot pr sp =
     SubmitOrder smb ''CME'' (side_code sd) qty (order_type_map ot) pr sp"

definition new_order ::
  "world \<Rightarrow> client \<Rightarrow> string option \<Rightarrow> string \<Rightarrow> OrderSide \<Rightarrow> int \<Rightarrow> OrderType \<Rightarrow>
   real option \<Rightarrow> real option \<Rightarrow> Order" where
  "new_order w s result smb sd qty ot pr sp =
     \<lparr> order_id = (case result of Some i \<Rightarrow> i | None \<Rightarrow> ''ORD-'' @ clock w (calls s)),
       symbol = smb, side = sd, quantity = qty, order_type = ot, price = pr,
       stop_price = sp, status = SUBMITTED, filled_quantity = 0, filled_price = 0 \<rparr>"

definition place_order ::
  "world \<Rightarrow> client \<Rightarrow> string \<Rightarrow> OrderSide \<Rightarrow> int \<Rightarrow> OrderType \<Rightarrow> real option \<Rightarrow> real option
   \<Rightarrow> (error + Order option) \<times> client" where
  "place_order w s smb sd qty0 ot pr sp =
     (if \<not> connected s then (Inl NotConnected, s)
      else if \<not> trading_enabled s then (Inr None, s)
      else
        let qty = capped s qty0 in
        if daily_pnl s < - max_daily_loss (config s)
        then (Inr None, s\<lparr>trading_enabled := False\<rparr>)
        else
          let c = submit_call smb sd qty ot pr sp;
              s1 = s\<lparr>calls := calls s @ [c]\<rparr>
          in case venue_submit_order w (calls s) c of
               Raised \<Rightarrow> (Inr None, s1)
             | Returned result \<Rightarrow>
                 let ord = new_order w s result smb sd qty ot pr sp
                 in (Inr (Some ord),
                     s1\<lparr>orders := AList.update (order_id ord) ord (orders s1),
                        events := events s1 @ [ord]\<rparr>))"

definition cancel_order :: "world \<Rightarrow> client \<Rightarrow> string \<Rightarrow> (error + bool) \<times> client" where
  "cancel_order w s oid =
     (if \<not> connected s then (Inl NotConnected, s)
      else
        let s1 = s\<lparr>calls := calls s @ [CancelOrder oid]\<rparr>
        in case venue_cancel_order w (calls s) oid of
             Raised \<Rightarrow> (Inr False, s1)
           | Returned _ \<Rightarrow>
               (Inr True,
                s1\<lparr>orders := AList.map_entry oid (\<lambda>ord. ord\<lparr>status := CANCELLED\<rparr>) (orders s1)\<rparr>))"

definition cancel_if_open :: "Order \<Rightarrow> Order" where
  "cancel_if_open ord =
     (if status ord = PENDING \<or> status ord = SUBMITTED then ord\<lparr>status := CANCELLED\<rparr> else ord)"

definition cancel_all_orders :: "world \<Rightarrow> client \<Rightarrow> (error + bool) \<times> client" where
  "cancel_all_orders w s =
     (if \<not> connected s then (Inl NotConnected, s)
      else
        let s1 = s\<lparr>calls := calls s @ [CancelAllOrders]\<rparr>
        in case venue_cancel_all_orders w (calls s) of
             Raised \<Rightarrow> (Inr False, s1)
           | Returned _ \<Rightarrow>
               (Inr True, s1\<lparr>orders := map (\<lambda>(k, ord). (k, cancel_if_open ord)) (orders s1)\<rparr>))"

definition get_order :: "client \<Rightarrow> string \<Rightarrow> Order option" where
  "get_order s oid = map_of (orders s) oid"

definition is_open :: "Order \<Rightarrow> bool" where
  "is_open ord \<longleftrightarrow> status ord = PENDING \<or> status ord = SUBMITTED \<or> status ord = PARTIALLY_FILLED"

definition get_open_orders :: "client \<Rightarrow> Order list" where
  "get_open_orders s = filter is_open (map snd (orders s))"

section \<open>Position management\<close>

definition position_of :: "position_payload \<Rightarrow> Position" where
  "position_of pos =
     \<lparr> pos_symbol = (case pp_symbol pos of Some x \<Rightarrow> x | None \<Rightarrow> []),
       pos_quantity = (case pp_quantity pos of Some x \<Rightarrow> x | None \<Rightarrow> 0),
       avg_price = (case pp_avg_price pos of Some x \<Rightarrow> x | None \<Rightarrow> 0),
       unrealized_pnl = (case pp_unrealized_pnl pos of Some x \<Rightarrow> x | None \<Rightarrow> 0),
       realized_pnl = (case pp_realized_pnl pos of Some x \<Rightarrow> x | None \<Rightarrow> 0) \<rparr>"

fun build_ledger ::
  "(string \<times> Position) list \<Rightarrow> position_payload list \<Rightarrow> (string \<times> Position) list" where
  "build_ledger led [] = led"
| "build_ledger led (pos # rest) =
     build_ledger (AList.update (pos_symbol (position_of pos)) (position_of pos) led) rest"

definition get_positions :: "world \<Rightarrow> client \<Rightarrow> Position list \<times> client" where
  "get_positions w s =
     (if \<not> connected s then (map snd (positions s), s)
      else
        let s1 = s\<lparr>calls := calls s @ [GetPositions]\<rparr>
        in case venue_get_positions w (calls s) of
             Raised \<Rightarrow> (map snd (positions s1), s1)
           | Returned ps \<Rightarrow>
               let s2 = s1\<lparr>positions := build_ledger [] ps\<rparr>
               in (map snd (positions s2), s2))"

definition close_position :: "world \<Rightarrow> client \<Rightarrow> string \<Rightarrow> (error + bool) \<times> client" where
  "close_position w s smb =
     (case map_of (positions s) smb of
        None \<Rightarrow> (Inr False, s)
      | Some position \<Rightarrow>
          if pos_quantity position = 0 then (Inr True, s)
          else
            let sd = (if pos_quantity position > 0 then SELL else BUY);
                qty = abs (pos_quantity position)
            in (case place_order w s smb sd qty MARKET None None of
                  (Inl e, s1) \<Rightarrow> (Inl e, s1)
                | (Inr ord, s1) \<Rightarrow> (Inr (ord \<noteq> None), s1)))"

text \<open>
  The loop of \<open>close_all_positions\<close> over \<open>list(self._positions.keys())\<close>, with the
  flag \<open>success\<close> as accumulator. An exception of \<open>close_position\<close> leaves the loop.
\<close>

fun close_all_loop :: "world \<Rightarrow> client \<Rightarrow> string list \<Rightarrow> bool \<Rightarrow> (error + bool) \<times> client" where
  "close_all_loop w s [] success = (Inr success, s)"
| "close_all_loop w s (smb # rest) success =
     (case close_position w s smb of
        (Inl e, s1) \<Rightarrow> (Inl e, s1)
      | (Inr ok, s1) \<Rightarrow> close_all_loop w s1 rest (if \<not> ok then False else success))"

definition close_all_positions :: "world \<Rightarrow> client \<Rightarrow> (error + bool) \<times> client" where
  "close_all_positions w s = close_all_loop w s (map fst (positions s)) True"

section \<open>Account information\<close>

definition account_of :: "client \<Rightarrow> account_payload \<Rightarrow> Position list \<Rightarrow> AccountInfo" where
  "account_of s account ps =
     \<lparr> account_id = (case ap_account_id account of Some x \<Rightarrow> x | None \<Rightarrow> rithmic_user (config s)),
       balance = (case ap_balance account of Some x \<Rightarrow> x | None \<Rightarrow> 150000),
       buying_power = (case ap_buying_power account of Some x \<Rightarrow> x | None \<Rightarrow> 0),
       acct_daily_pnl = (case ap_daily_pnl account of Some x \<Rightarrow> x | None \<Rightarrow> 0),
       acct_unrealized_pnl = (case ap_unrealized_pnl account of Some x \<Rightarrow> x | None \<Rightarrow> 0),
       acct_realized_pnl = (case ap_realized_pnl account of Some x \<Rightarrow> x | None \<Rightarrow> 0),
       acct_positions = ps \<rparr>"

definition get_account_info :: "world \<Rightarrow> client \<Rightarrow> AccountInfo option \<times> client" where
  "get_account_info w s =
     (if \<not> connected s then (account_info s, s)
      else
        let s1 = s\<lparr>calls := calls s @ [GetAccountInfo]\<rparr>
        in case venue_get_account_info w (calls s) of
             Raised \<Rightarrow> (account_info s1, s1)
           | Returned account \<Rightarrow>
               let (ps, s2) = get_positions w s1;
                   info = account_of s2 account ps
               in (Some info, s2\<lparr>account_info := Some info, daily_pnl := acct_daily_pnl info\<rparr>))"

section \<open>Trading controls\<close>

definition enable_trading :: "client \<Rightarrow> client" where
  "enable_trading s = s\<lparr>trading_enabled := True\<rparr>"

definition disable_trading :: "client \<Rightarrow> client" where
  "disable_trading s = s\<lparr>trading_enabled := False\<rparr>"

definition reset_daily_stats :: "client \<Rightarrow> client" where
  "reset_daily_stats s = s\<lparr>daily_pnl := 0, trading_enabled := True\<rparr>"

section \<open>The endpoints of \<open>api.py\<close>\<close>

text \<open>
  The API key check of the endpoints is taken as passed. An \<open>HTTPException\<close> is
  modelled by its status code. For a response only the \<open>success\<close> and \<open>action\<close>
  entries are kept; the others repeat the request.
\<close>

record SignalRequest =
  signal_type :: string
  sig_symbol :: string
  confidence :: real
  entry_price :: "real option"
  stop_loss :: "real option"
  take_profit :: "real option"
  contracts :: int

record signal_response =
  resp_success :: bool
  resp_action :: string

definition truthy :: "real option \<Rightarrow> bool" where
  "truthy x = (case x of None \<Rightarrow> False | Some v \<Rightarrow> v \<noteq> 0)"

definition entry_with_stop ::
  "world \<Rightarrow> client \<Rightarrow> SignalRequest \<Rightarrow> OrderSide \<Rightarrow> OrderSide \<Rightarrow> (error + signal_response) \<times> client" where
  "entry_with_stop w s signal entry exit =
     (case place_order w s (sig_symbol signal) entry (contracts signal) MARKET None None of
        (Inl e, s1) \<Rightarrow> (Inl e, s1)
      | (Inr ord, s1) \<Rightarrow>
          let resp = \<lparr> resp_success = True, resp_action = signal_type signal \<rparr>
          in if truthy (stop_loss signal) \<and> ord \<noteq> None
             then (case place_order w s1 (sig_symbol signal) exit (contracts signal) STOP None
                          (stop_loss signal) of
                     (Inl e, s2) \<Rightarrow> (Inl e, s2)
                   | (Inr _, s2) \<Rightarrow> (Inr resp, s2))
             else (Inr resp, s1))"

definition signal_body :: "world \<Rightarrow> client \<Rightarrow> SignalRequest \<Rightarrow> (error + signal_response) \<times> client" where
  "signal_body w s signal =
     (if signal_type signal = ''LONG'' then entry_with_stop w s signal BUY SELL
      else if signal_type signal = ''SHORT'' then entry_with_stop w s signal SELL BUY
      else if signal_type signal = ''EXIT'' then
        (case close_position w s (sig_symbol signal) of
           (Inl e, s1) \<Rightarrow> (Inl e, s1)
         | (Inr _, s1) \<Rightarrow>
             (case cancel_all_orders w s1 of
                (Inl e, s2) \<Rightarrow> (Inl e, s2)
              | (Inr _, s2) \<Rightarrow> (Inr \<lparr> resp_success = True, resp_action = ''EXIT'' \<rparr>, s2)))
      else (Inl (HTTPException 400), s))"

definition execute_signal :: "world \<Rightarrow> client \<Rightarrow> SignalRequest \<Rightarrow> (error + signal_response) \<times> client" where
  "execute_signal w s signal =
     (if \<not> connected s then (Inl (HTTPException 503), s)
      else if \<not> trading_enabled s then (Inl (HTTPException 403), s)
      else case signal_body w s signal of
             (Inl e, s1) \<Rightarrow> (Inl (HTTPException 500), s1)
           | (Inr resp, s1) \<Rightarrow> (Inr resp, s1))"

definition emergency_stop :: "world \<Rightarrow> client \<Rightarrow> (error + bool) \<times> client" where
  "emergency_stop w s =
     (let s1 = disable_trading s
      in case cancel_all_orders w s1 of
           (Inl e, s2) \<Rightarrow> (Inl e, s2)
         | (Inr _, s2) \<Rightarrow>
             (case close_all_positions w s2 of
                (Inl e, s3) \<Rightarrow> (Inl e, s3)
              | (Inr _, s3) \<Rightarrow> (Inr True, s3)))"

section \<open>Sequences of operations\<close>

text \<open>
  The operations of \<open>TradingClient\<close> as commands, run one after the other on the
  client state; the result of each command is dropped, an exception included. Two of them
  assign true to the trading-enabled flag.
\<close>

datatype command =
    DoPlaceOrder string OrderSide int OrderType "real option" "real option"
  | DoCancelOrder string
  | DoCancelAllOrders
  | DoGetPositions
  | DoClosePosition string
  | DoCloseAllPositions
  | DoGetAccountInfo
  | DoEnableTrading
  | DoDisableTrading
  | DoResetDailyStats

fun step :: "world \<Rightarrow> client \<Rightarrow> command \<Rightarrow> client" where
  "step w s (DoPlaceOrder smb sd qty ot pr sp) = snd (place_order w s smb sd qty ot pr sp)"
| "step w s (DoCancelOrder oid) = snd (cancel_order w s oid)"
| "step w s DoCancelAllOrders = snd (cancel_all_orders w s)"
| "step w s DoGetPositions = snd (get_positions w s)"
| "step w s (DoClosePosition smb) = snd (close_position w s smb)"
| "step w s DoCloseAllPositions = snd (close_all_positions w s)"
| "step w s DoGetAccountInfo = snd (get_account_info w s)"
| "step w s DoEnableTrading = enable_trading s"
| "step w s DoDisableTrading = disable_trading s"
| "step w s DoResetDailyStats = reset_daily_stats s"

definition run :: "world \<Rightarrow> client \<Rightarrow> command list \<Rightarrow> client" where
  "run w s cs = foldl (step w) s cs"

fun reenables :: "command \<Rightarrow> bool" where
  "reenables DoEnableTrading = True"
| "reenables DoResetDailyStats = True"
| "reenables _ = False"





text \<open>
  The reading of "every known symbol is attempted" that \<open>close_all_positions\<close> is
  compared with: \<open>close_position\<close> is called for each symbol in turn, whatever the
  earlier calls gave, and the outcomes are collected.
\<close>

fun spec_attempt_every_symbol ::
  "world \<Rightarrow> client \<Rightarrow> string list \<Rightarrow> (error + bool) list \<times> client" where
  "spec_attempt_every_symbol w s [] = ([], s)"
| "spec_attempt_every_symbol w s (smb # rest) =
     (let r = close_position w s smb;
          rs = spec_attempt_every_symbol w (snd r) rest
      in (fst r # fst rs, snd rs))"

section \<open>Concrete scenarios\<close>

definition demo_config :: Config where
  "demo_config = \<lparr> rithmic_user = ''demo'', max_contracts = 5, max_daily_loss = 1500 \<rparr>"

text \<open>The initial state once \<open>connect\<close> has succeeded.\<close>

definition online :: client where
  "online = (init_client demo_config)\<lparr>connected := True\<rparr>"

text \<open>
  A venue that accepts every call, names the orders \<open>A\<close>, \<open>Ax\<close>, \<open>Axx\<close>, ... by the
  number of earlier calls and reports a daily PnL of -2000; and a venue whose every call
  raises.
\<close>

definition accepting_world :: world where
  "accepting_world =
     \<lparr> venue_submit_order = (\<lambda>h c. Returned (Some (CHR ''A'' # replicate (length h) CHR ''x''))),
       venue_cancel_order = (\<lambda>h oid. Returned ()),
       venue_cancel_all_orders = (\<lambda>h. Returned ()),
       venue_get_positions = (\<lambda>h. Returned []),
       venue_get_account_info = (\<lambda>h. Returned \<lparr> ap_account_id = None, ap_balance = None,
          ap_buying_power = None, ap_daily_pnl = Some (- 2000), ap_unrealized_pnl = None,
          ap_realized_pnl = None \<rparr>),
       clock = (\<lambda>h. ''0'') \<rparr>"

definition failing_world :: world where
  "failing_world =
     \<lparr> venue_submit_order = (\<lambda>h c. Raised),
       venue_cancel_order = (\<lambda>h oid. Raised),
       venue_cancel_all_orders = (\<lambda>h. Raised),
       venue_get_positions = (\<lambda>h. Raised),
       venue_get_account_info = (\<lambda>h. Raised),
       clock = (\<lambda>h. ''0'') \<rparr>"

definition demo_position :: "string \<Rightarrow> int \<Rightarrow> string \<times> Position" where
  "demo_position smb q =
     (smb, \<lparr> pos_symbol = smb, pos_quantity = q, avg_price = 0, unrealized_pnl = 0,
             realized_pnl = 0 \<rparr>)"


text \<open>
  A venue that refuses every submission for \<open>NQH5\<close> and accepts the others; a ledger
  with two open positions; a LONG signal; the connected client after an account refresh
  that reported a daily PnL of -2000; and a client that placed one order and cancelled it.
  A state with \<open>connected := False\<close> is the state after \<open>disconnect\<close>.
\<close>

definition selective_world :: world where
  "selective_world =
     accepting_world\<lparr> venue_submit_order :=
       (\<lambda>h c. case c of
                 SubmitOrder smb ex sd qty ot pr sp \<Rightarrow>
                   if smb = ''NQH5'' then Raised else Returned (Some ''B1'')
               | _ \<Rightarrow> Raised) \<rparr>"

definition two_positions :: client where
  "two_positions = online\<lparr>positions := [demo_position ''NQH5'' 1, demo_position ''ESH5'' 2]\<rparr>"

definition holding :: client where
  "holding = online\<lparr>positions := [demo_position ''NQH5'' 1]\<rparr>"

definition long_signal :: "int \<Rightarrow> real option \<Rightarrow> SignalRequest" where
  "long_signal n sl =
     \<lparr> signal_type = ''LONG'', sig_symbol = ''ESH5'', confidence = 1, entry_price = None,
       stop_loss = sl, take_profit = None, contracts = n \<rparr>"

definition losing :: client where
  "losing = snd (get_account_info accepting_world online)"

definition cancelled_once :: client where
  "cancelled_once =
     snd (cancel_order accepting_world
            (snd (place_order accepting_world online ''ESH5'' BUY 1 MARKET None None)) ''A'')"

section \<open>Auxiliary facts\<close>

lemmas scenario_defs = online_def init_client_def demo_config_def accepting_world_def
  failing_world_def demo_position_def selective_world_def two_positions_def
  holding_def long_signal_def losing_def cancelled_once_def

lemmas operation_defs = place_order_def capped_def new_order_def submit_call_def side_code_def
  close_position_def close_all_positions_def cancel_all_orders_def cancel_order_def
  get_positions_def get_account_info_def account_of_def position_of_def
  disable_trading_def reset_daily_stats_def emergency_stop_def execute_signal_def
  signal_body_def entry_with_stop_def truthy_def cancel_if_open_def get_order_def
  get_open_orders_def is_open_def run_def Let_def

lemma snd_case_result:
  "snd (case p of (Inl e, t) \<Rightarrow> (f e, t) | (Inr r, t) \<Rightarrow> (g r, t)) = snd p"
  by (auto split: prod.splits sum.splits)

subsection \<open>\<open>place_order\<close>\<close>

lemma place_order_connected [simp]:
  "connected (snd (place_order w s smb sd qty ot pr sp)) = connected s"
  by (simp add: place_order_def Let_def split: outcome.splits)

lemma place_order_stays_disabled:
  "\<not> trading_enabled s \<Longrightarrow> \<not> trading_enabled (snd (place_order w s smb sd qty ot pr sp))"
  by (simp add: place_order_def)

lemma place_order_returns:
  "connected s \<Longrightarrow> \<exists>r. fst (place_order w s smb sd qty ot pr sp) = Inr r"
  by (simp add: place_order_def Let_def split: outcome.splits)

lemma place_order_rejected_by_loss:
  "connected s \<Longrightarrow> trading_enabled s \<Longrightarrow> daily_pnl s < - max_daily_loss (config s) \<Longrightarrow>
   place_order w s smb sd qty ot pr sp = (Inr None, s\<lparr>trading_enabled := False\<rparr>)"
  by (simp add: place_order_def Let_def)

lemma place_order_venue_raises:
  "connected s \<Longrightarrow> trading_enabled s \<Longrightarrow> \<not> daily_pnl s < - max_daily_loss (config s) \<Longrightarrow>
   venue_submit_order w (calls s) (submit_call smb sd (capped s qty) ot pr sp) = Raised \<Longrightarrow>
   place_order w s smb sd qty ot pr sp
     = (Inr None, s\<lparr>calls := calls s @ [submit_call smb sd (capped s qty) ot pr sp]\<rparr>)"
  by (simp add: place_order_def Let_def)

lemma place_order_venue_returns:
  assumes "connected s" and "trading_enabled s"
      and "\<not> daily_pnl s < - max_daily_loss (config s)"
      and "venue_submit_order w (calls s) (submit_call smb sd (capped s qty) ot pr sp) \<noteq> Raised"
  shows "\<exists>ord s'. place_order w s smb sd qty ot pr sp = (Inr (Some ord), s')
           \<and> quantity ord = capped s qty \<and> status ord = SUBMITTED
           \<and> calls s' = calls s @ [submit_call smb sd (capped s qty) ot pr sp]
           \<and> connected s' \<and> trading_enabled s' \<and> daily_pnl s' = daily_pnl s
           \<and> config s' = config s"
  using assms
  by (cases "venue_submit_order w (calls s) (submit_call smb sd (capped s qty) ot pr sp)")
     (simp_all add: place_order_def new_order_def Let_def)

lemma place_order_calls:
  assumes "connected s" and "trading_enabled s"
  shows "calls (snd (place_order w s smb sd qty ot pr sp)) = calls s @
           (if daily_pnl s < - max_daily_loss (config s) then []
            else [submit_call smb sd (capped s qty) ot pr sp])"
  using assms by (simp add: place_order_def Let_def split: outcome.splits)

subsection \<open>\<open>close_position\<close> and the loop over the ledger\<close>

lemma close_position_connected [simp]:
  "connected (snd (close_position w s smb)) = connected s"
  by (simp add: close_position_def Let_def snd_case_result split: option.splits)

lemma close_position_stays_disabled:
  "\<not> trading_enabled s \<Longrightarrow> \<not> trading_enabled (snd (close_position w s smb))"
  by (simp add: close_position_def Let_def snd_case_result place_order_stays_disabled
        split: option.splits)

lemma close_position_returns:
  assumes "connected s"
  shows "\<exists>ok. fst (close_position w s smb) = Inr ok"
proof (cases "map_of (positions s) smb")
  case None
  then show ?thesis by (auto simp: close_position_def)
next
  case (Some p)
  obtain r where "fst (place_order w s smb (if pos_quantity p > 0 then SELL else BUY)
      (abs (pos_quantity p)) MARKET None None) = Inr r"
    using place_order_returns [OF assms] by blast
  with Some show ?thesis
    by (auto simp: close_position_def Let_def split: prod.splits sum.splits)
qed

lemma close_position_while_disabled:
  "connected s \<Longrightarrow> \<not> trading_enabled s \<Longrightarrow> snd (close_position w s smb) = s"
  by (simp add: close_position_def place_order_def Let_def split: option.splits)

lemma close_all_loop_spec:
  "connected s \<Longrightarrow>
   close_all_loop w s syms b =
     (Inr (b \<and> list_all (\<lambda>r. r = Inr True) (fst (spec_attempt_every_symbol w s syms))),
      snd (spec_attempt_every_symbol w s syms))"
proof (induction syms arbitrary: s b)
  case Nil
  then show ?case by simp
next
  case (Cons smb rest)
  obtain ok where ok: "fst (close_position w s smb) = Inr ok"
    using close_position_returns [OF Cons.prems] by blast
  have c: "connected (snd (close_position w s smb))"
    using Cons.prems by simp
  show ?case
    using ok Cons.IH [OF c] by (auto simp: Let_def split: prod.splits)
qed

lemma spec_attempt_outcomes:
  "connected s \<Longrightarrow> r \<in> set (fst (spec_attempt_every_symbol w s syms)) \<Longrightarrow>
   r = Inr True \<or> r = Inr False"
proof (induction syms arbitrary: s)
  case Nil
  then show ?case by simp
next
  case (Cons smb rest)
  obtain ok where ok: "fst (close_position w s smb) = Inr ok"
    using close_position_returns [OF Cons.prems(1)] by blast
  have c: "connected (snd (close_position w s smb))"
    using Cons.prems(1) by simp
  from Cons.prems(2)
  have "r = Inr ok
      \<or> r \<in> set (fst (spec_attempt_every_symbol w (snd (close_position w s smb)) rest))"
    using ok by (simp add: Let_def)
  then show ?case using Cons.IH [OF c] by auto
qed

lemma spec_attempt_length:
  "length (fst (spec_attempt_every_symbol w s syms)) = length syms"
  by (induction syms arbitrary: s) (simp_all add: Let_def)

lemma spec_attempt_stays_disabled:
  "\<not> trading_enabled s \<Longrightarrow> \<not> trading_enabled (snd (spec_attempt_every_symbol w s syms))"
  by (induction syms arbitrary: s) (simp_all add: Let_def close_position_stays_disabled)

lemma spec_attempt_while_disabled:
  "connected s \<Longrightarrow> \<not> trading_enabled s \<Longrightarrow> snd (spec_attempt_every_symbol w s syms) = s"
  by (induction syms) (simp_all add: Let_def close_position_while_disabled)

subsection \<open>Cancelling and refreshing\<close>

lemma cancel_all_orders_returns:
  "connected s \<Longrightarrow>
   fst (cancel_all_orders w s) = Inr (venue_cancel_all_orders w (calls s) \<noteq> Raised)
   \<and> connected (snd (cancel_all_orders w s))
   \<and> trading_enabled (snd (cancel_all_orders w s)) = trading_enabled s
   \<and> calls (snd (cancel_all_orders w s)) = calls s @ [CancelAllOrders]"
  by (simp add: cancel_all_orders_def Let_def split: outcome.splits)


lemma get_positions_enabled [simp]:
  "trading_enabled (snd (get_positions w s)) = trading_enabled s"
  by (simp add: get_positions_def Let_def split: outcome.splits)

lemma get_account_info_enabled [simp]:
  "trading_enabled (snd (get_account_info w s)) = trading_enabled s"
  by (simp add: get_account_info_def Let_def case_prod_beta split: outcome.splits)

lemma cancel_order_enabled [simp]:
  "trading_enabled (snd (cancel_order w s oid)) = trading_enabled s"
  by (simp add: cancel_order_def Let_def split: outcome.splits)

lemma cancel_all_orders_enabled [simp]:
  "trading_enabled (snd (cancel_all_orders w s)) = trading_enabled s"
  by (simp add: cancel_all_orders_def Let_def split: outcome.splits)

lemma close_all_loop_stays_disabled:
  "\<not> trading_enabled s \<Longrightarrow> \<not> trading_enabled (snd (close_all_loop w s syms b))"
proof (induction syms arbitrary: s b)
  case Nil
  then show ?case by simp
next
  case (Cons smb rest)
  obtain r s1 where p: "close_position w s smb = (r, s1)"
    by (cases "close_position w s smb")
  have d: "\<not> trading_enabled s1"
    using close_position_stays_disabled [OF Cons.prems, of w smb] by (simp add: p)
  show ?case
    using d Cons.IH [OF d] by (cases r) (simp_all add: p)
qed

lemma step_stays_disabled:
  "\<not> trading_enabled s \<Longrightarrow> \<not> reenables c \<Longrightarrow> \<not> trading_enabled (step w s c)"
  by (cases c)
    (simp_all add: place_order_stays_disabled close_position_stays_disabled
      close_all_positions_def close_all_loop_stays_disabled disable_trading_def)

lemma run_stays_disabled:
  "\<not> trading_enabled s \<Longrightarrow> \<forall>c \<in> set cs. \<not> reenables c \<Longrightarrow> \<not> trading_enabled (run w s cs)"
  unfolding run_def
  by (induction cs arbitrary: s) (simp_all add: step_stays_disabled)

subsection \<open>Entry with a protective stop\<close>

lemma entry_with_stop_calls:
  assumes "connected s" and "trading_enabled s"
  shows "calls (snd (entry_with_stop w s signal entry exit)) = calls s @
           (if daily_pnl s < - max_daily_loss (config s) then []
            else submit_call (sig_symbol signal) entry (capped s (contracts signal)) MARKET None None
              # (if truthy (stop_loss signal)
                      \<and> venue_submit_order w (calls s)
                          (submit_call (sig_symbol signal) entry (capped s (contracts signal))
                             MARKET None None) \<noteq> Raised
                 then [submit_call (sig_symbol signal) exit (capped s (contracts signal)) STOP None
                         (stop_loss signal)]
                 else []))"
proof (cases "daily_pnl s < - max_daily_loss (config s)")
  case True
  then show ?thesis
    using assms by (simp add: entry_with_stop_def place_order_rejected_by_loss)
next
  case False
  let ?c = "submit_call (sig_symbol signal) entry (capped s (contracts signal)) MARKET None None"
  show ?thesis
  proof (cases "venue_submit_order w (calls s) ?c = Raised")
    case True
    then show ?thesis
      using assms False by (simp add: entry_with_stop_def place_order_venue_raises)
  next
    case ret: False
    obtain ord s' where
      p: "place_order w s (sig_symbol signal) entry (contracts signal) MARKET None None
            = (Inr (Some ord), s')"
      and s': "calls s' = calls s @ [?c]" "connected s'" "trading_enabled s'"
        "daily_pnl s' = daily_pnl s" "config s' = config s"
      using place_order_venue_returns [OF assms False ret] by blast
    have cap: "capped s' (contracts signal) = capped s (contracts signal)"
      using s' by (simp add: capped_def)
    have second:
      "calls (snd (place_order w s' (sig_symbol signal) exit (contracts signal) STOP None
          (stop_loss signal)))
       = calls s' @ [submit_call (sig_symbol signal) exit (capped s (contracts signal)) STOP None
           (stop_loss signal)]"
      using place_order_calls [OF s'(2) s'(3)] s' False cap by simp
    show ?thesis
      using p s' False ret second
      by (simp add: entry_with_stop_def Let_def snd_case_result)
  qed
qed

subsection \<open>The statuses of a reached order book\<close>






lemma get_positions_orders [simp]:
  "orders (snd (get_positions w s)) = orders s"
  by (simp add: get_positions_def Let_def split: outcome.splits)

lemma get_account_info_orders [simp]:
  "orders (snd (get_account_info w s)) = orders s"
  by (simp add: get_account_info_def Let_def case_prod_beta split: outcome.splits)











section \<open>Quantity cap\<close>

text \<open>
  C1. A \<open>place_order\<close> call made while connected and trading-enabled with a quantity
  above \<open>max_contracts\<close> behaves exactly as the same call with the quantity
  \<open>max_contracts\<close>: an order it returns has the quantity \<open>max_contracts\<close>, and it
  returns an order whenever the daily-loss check passes and the venue accepts the
  submission, so no refusal is due to the size of the request.
\<close>

theorem place_order_clamps:
  assumes "connected s" and "trading_enabled s" and "qty > max_contracts (config s)"
  shows "place_order w s smb sd qty ot pr sp =
           place_order w s smb sd (max_contracts (config s)) ot pr sp
       \<and> (\<forall>ord. fst (place_order w s smb sd qty ot pr sp) = Inr (Some ord)
              \<longrightarrow> quantity ord = max_contracts (config s))
       \<and> (\<not> daily_pnl s < - max_daily_loss (config s)
            \<and> venue_submit_order w (calls s)
                 (submit_call smb sd (max_contracts (config s)) ot pr sp) \<noteq> Raised
            \<longrightarrow> (\<exists>ord. fst (place_order w s smb sd qty ot pr sp) = Inr (Some ord)))"
  using assms
  by (auto simp: place_order_def capped_def new_order_def Let_def split: outcome.splits)

theorem place_order_clamps_witness:
  "connected online \<and> trading_enabled online \<and> 10 > max_contracts (config online)
   \<and> (\<exists>ord. fst (place_order accepting_world online ''ESH5'' BUY 10 MARKET None None)
               = Inr (Some ord)
             \<and> quantity ord = 5 \<and> status ord = SUBMITTED)"
  using place_order_clamps [of online 10 accepting_world "''ESH5''" BUY MARKET None None]
  by (simp add: scenario_defs operation_defs)

section \<open>Daily loss limit\<close>

text \<open>
  C2, as stated, fails for a disconnected client: the running daily PnL is below the
  limit and an order submission is attempted, but \<open>place_order\<close> raises before the loss
  check and the flag stays true.
\<close>

theorem daily_loss_offline_counterexample:
  "daily_pnl (losing\<lparr>connected := False\<rparr>)
     < - max_daily_loss (config (losing\<lparr>connected := False\<rparr>))
   \<and> place_order accepting_world (losing\<lparr>connected := False\<rparr>) ''ESH5'' BUY 1 MARKET None None
       = (Inl NotConnected, losing\<lparr>connected := False\<rparr>)
   \<and> trading_enabled
       (snd (place_order accepting_world (losing\<lparr>connected := False\<rparr>) ''ESH5'' BUY 1 MARKET
               None None))"
  by (simp add: scenario_defs operation_defs)

text \<open>
  C2 (amended). Once the running daily PnL is below the negative of \<open>max_daily_loss\<close>
  and an order submission is attempted while connected, the trading-enabled flag is false;
  it stays false across every later sequence of client operations (order submissions,
  account refreshes with whatever daily PnL the venue reports, cancellations, closes) that
  holds no \<open>enable_trading\<close> and no \<open>reset_daily_stats\<close>, and \<open>reset_daily_stats\<close>
  sets it to true again.
\<close>

theorem daily_loss_latch:
  assumes "connected s" and "daily_pnl s < - max_daily_loss (config s)"
      and "\<forall>c \<in> set cs. \<not> reenables c"
  shows "\<not> trading_enabled (snd (place_order w s smb sd qty ot pr sp))
       \<and> \<not> trading_enabled (run w (snd (place_order w s smb sd qty ot pr sp)) cs)
       \<and> trading_enabled
           (run w (snd (place_order w s smb sd qty ot pr sp)) (cs @ [DoResetDailyStats]))"
proof -
  have d: "\<not> trading_enabled (snd (place_order w s smb sd qty ot pr sp))"
    using assms(1,2) by (simp add: place_order_def Let_def)
  then show ?thesis
    using run_stays_disabled [OF d assms(3)] by (simp add: run_def reset_daily_stats_def)
qed

theorem daily_loss_latch_witness:
  "connected losing \<and> daily_pnl losing < - max_daily_loss (config losing)
   \<and> \<not> reenables (DoPlaceOrder ''ESH5'' SELL 1 MARKET None None)
   \<and> \<not> reenables DoGetAccountInfo \<and> \<not> reenables DoCloseAllPositions
   \<and> trading_enabled losing
   \<and> \<not> trading_enabled (snd (place_order accepting_world losing ''ESH5'' BUY 1 MARKET None None))
   \<and> \<not> trading_enabled
        (run accepting_world
           (snd (place_order accepting_world losing ''ESH5'' BUY 1 MARKET None None))
           [DoPlaceOrder ''ESH5'' SELL 1 MARKET None None, DoGetAccountInfo,
            DoCloseAllPositions])
   \<and> trading_enabled
        (run accepting_world
           (snd (place_order accepting_world losing ''ESH5'' BUY 1 MARKET None None))
           ([DoPlaceOrder ''ESH5'' SELL 1 MARKET None None, DoGetAccountInfo,
             DoCloseAllPositions] @ [DoResetDailyStats]))"
  using daily_loss_latch [of losing
      "[DoPlaceOrder ''ESH5'' SELL 1 MARKET None None, DoGetAccountInfo, DoCloseAllPositions]"
      accepting_world "''ESH5''" BUY 1 MARKET None None]
  by (simp add: scenario_defs operation_defs)

section \<open>Cancelling orders\<close>

text \<open>
  C3, as stated, fails: the client places an order, cancels it, and cancels it again. The
  order is CANCELLED before the second call, the venue accepts the call, and
  \<open>cancel_order\<close> returns success.
\<close>

theorem cancel_order_on_cancelled_succeeds:
  "map_option status (get_order cancelled_once ''A'') = Some CANCELLED
   \<and> fst (cancel_order accepting_world cancelled_once ''A'') = Inr True"
  by (simp add: scenario_defs operation_defs)

text \<open>
  C3 (amended). For an order of the book whose status is FILLED, REJECTED or CANCELLED,
  \<open>cancel_order\<close> called while disconnected raises NotConnected and changes nothing;
  called while connected it returns failure exactly when the venue's cancel call raises,
  and then the order book is unchanged; a CANCELLED order is CANCELLED afterwards in
  every case.
\<close>

theorem cancel_order_terminal:
  assumes "map_of (orders s) oid = Some ord"
      and "status ord = FILLED \<or> status ord = REJECTED \<or> status ord = CANCELLED"
  shows "(\<not> connected s \<longrightarrow> cancel_order w s oid = (Inl NotConnected, s))
       \<and> (connected s \<longrightarrow>
            fst (cancel_order w s oid) = Inr (venue_cancel_order w (calls s) oid \<noteq> Raised)
          \<and> (fst (cancel_order w s oid) = Inr False
               \<longrightarrow> orders (snd (cancel_order w s oid)) = orders s)
          \<and> (status ord = CANCELLED
               \<longrightarrow> map_option status (map_of (orders (snd (cancel_order w s oid))) oid)
                    = Some CANCELLED))"
  using assms
  by (auto simp: cancel_order_def Let_def map_of_map_entry split: outcome.splits)

theorem cancel_order_terminal_witness:
  "map_of (orders cancelled_once) ''A'' \<noteq> None
   \<and> map_option status (map_of (orders cancelled_once) ''A'') = Some CANCELLED
   \<and> connected cancelled_once
   \<and> fst (cancel_order failing_world cancelled_once ''A'') = Inr False
   \<and> orders (snd (cancel_order failing_world cancelled_once ''A'')) = orders cancelled_once
   \<and> \<not> connected (cancelled_once\<lparr>connected := False\<rparr>)
   \<and> fst (cancel_order failing_world (cancelled_once\<lparr>connected := False\<rparr>) ''A'')
       = Inl NotConnected"
  using cancel_order_terminal [of cancelled_once "''A''"
      "the (map_of (orders cancelled_once) ''A'')" failing_world]
    cancel_order_terminal [of "cancelled_once\<lparr>connected := False\<rparr>" "''A''"
      "the (map_of (orders cancelled_once) ''A'')" failing_world]
  by (simp add: scenario_defs operation_defs)



section \<open>Rejection while disabled\<close>

text \<open>
  C8. Called while connected with trading disabled, \<open>place_order\<close> returns no order and
  leaves the state as it is; called while disconnected it raises NotConnected. The two
  results differ, whatever the arguments.
\<close>

theorem disabled_is_not_not_connected:
  assumes "connected s" and "\<not> trading_enabled s" and "\<not> connected s'"
  shows "place_order w s smb sd qty ot pr sp = (Inr None, s)
       \<and> place_order w' s' smb' sd' qty' ot' pr' sp' = (Inl NotConnected, s')
       \<and> fst (place_order w s smb sd qty ot pr sp)
           \<noteq> fst (place_order w' s' smb' sd' qty' ot' pr' sp')"
  using assms by (simp add: place_order_def)

theorem disabled_is_not_not_connected_witness:
  "connected (disable_trading online) \<and> \<not> trading_enabled (disable_trading online)
   \<and> \<not> connected (init_client demo_config)
   \<and> fst (place_order accepting_world (disable_trading online) ''ESH5'' BUY 1 MARKET None None)
       = Inr None
   \<and> fst (place_order accepting_world (init_client demo_config) ''ESH5'' BUY 1 MARKET None None)
       = Inl NotConnected"
  using disabled_is_not_not_connected [of "disable_trading online" "init_client demo_config"
      accepting_world "''ESH5''" BUY 1 MARKET None None
      accepting_world "''ESH5''" BUY 1 MARKET None None]
  by (simp add: scenario_defs operation_defs)

section \<open>Positions\<close>

text \<open>
  C10. When the positions query raises while connected, \<open>get_positions\<close> returns the
  cached positions and the ledger is the one before the call. Whenever the ledger after
  the call differs from the one before, the client was connected and the query returned,
  and the new ledger is built from the venue's answer alone.
\<close>

theorem get_positions_keeps_ledger_on_error:
  "(connected s \<and> venue_get_positions w (calls s) = Raised
      \<longrightarrow> fst (get_positions w s) = map snd (positions s)
        \<and> positions (snd (get_positions w s)) = positions s)
   \<and> (positions (snd (get_positions w s)) \<noteq> positions s
      \<longrightarrow> connected s
        \<and> (\<exists>ps. venue_get_positions w (calls s) = Returned ps
               \<and> positions (snd (get_positions w s)) = build_ledger [] ps))"
  by (auto simp: get_positions_def Let_def split: outcome.splits)

theorem get_positions_keeps_ledger_on_error_witness:
  "connected holding \<and> venue_get_positions failing_world (calls holding) = Raised
   \<and> fst (get_positions failing_world holding) = map snd (positions holding)
   \<and> positions (snd (get_positions failing_world holding)) = positions holding
   \<and> positions (snd (get_positions accepting_world holding)) \<noteq> positions holding
   \<and> venue_get_positions accepting_world (calls holding) = Returned []"
  using get_positions_keeps_ledger_on_error [of holding failing_world]
    get_positions_keeps_ledger_on_error [of holding accepting_world]
  by (simp add: scenario_defs operation_defs)

text \<open>
  C5, as stated, fails for a symbol that is absent from the ledger: \<open>close_position\<close>
  returns failure, not success.
\<close>

theorem close_position_absent_fails:
  "map_of (positions online) ''ESH5'' = None
   \<and> close_position accepting_world online ''ESH5'' = (Inr False, online)"
  by (simp add: scenario_defs operation_defs)

text \<open>
  C5 (amended). \<open>close_position\<close> returns failure without any effect when the symbol is
  absent from the ledger, and success without any effect when its position is flat.
  Otherwise it makes one \<open>place_order\<close> call for a MARKET order on the opposite side with
  the absolute position quantity as requested quantity, raises what that call raises and
  returns success exactly when that call returns an order; the Broker Link receives at
  most one submission, of the capped quantity, and exactly one when the client is
  connected, trading-enabled and within the daily loss limit.
\<close>

theorem close_position_cases:
  "(map_of (positions s) smb = None \<longrightarrow> close_position w s smb = (Inr False, s))
   \<and> (\<forall>p. map_of (positions s) smb = Some p \<and> pos_quantity p = 0
          \<longrightarrow> close_position w s smb = (Inr True, s))
   \<and> (\<forall>p. map_of (positions s) smb = Some p \<and> pos_quantity p \<noteq> 0
          \<longrightarrow> snd (close_position w s smb)
                = snd (place_order w s smb (if pos_quantity p > 0 then SELL else BUY)
                         \<bar>pos_quantity p\<bar> MARKET None None)
            \<and> fst (close_position w s smb)
                = map_sum id (\<lambda>r. r \<noteq> None)
                    (fst (place_order w s smb (if pos_quantity p > 0 then SELL else BUY)
                            \<bar>pos_quantity p\<bar> MARKET None None))
            \<and> (calls (snd (close_position w s smb)) = calls s
               \<or> calls (snd (close_position w s smb))
                   = calls s @ [submit_call smb (if pos_quantity p > 0 then SELL else BUY)
                                  (capped s \<bar>pos_quantity p\<bar>) MARKET None None])
            \<and> (connected s \<and> trading_enabled s \<and> \<not> daily_pnl s < - max_daily_loss (config s)
                 \<longrightarrow> calls (snd (close_position w s smb))
                   = calls s @ [submit_call smb (if pos_quantity p > 0 then SELL else BUY)
                                  (capped s \<bar>pos_quantity p\<bar>) MARKET None None]))"
  by (auto simp: close_position_def place_order_def Let_def
      split: outcome.splits prod.splits sum.splits)

theorem close_position_cases_witness:
  "map_of (positions online) ''ESH5'' = None
   \<and> close_position accepting_world online ''ESH5'' = (Inr False, online)
   \<and> map_option pos_quantity
       (map_of (positions (online\<lparr>positions := [demo_position ''ESH5'' 0]\<rparr>)) ''ESH5'') = Some 0
   \<and> close_position accepting_world (online\<lparr>positions := [demo_position ''ESH5'' 0]\<rparr>) ''ESH5''
       = (Inr True, online\<lparr>positions := [demo_position ''ESH5'' 0]\<rparr>)
   \<and> map_option pos_quantity
       (map_of (positions (online\<lparr>positions := [demo_position ''ESH5'' (- 7)]\<rparr>)) ''ESH5'')
       = Some (- 7)
   \<and> connected (online\<lparr>positions := [demo_position ''ESH5'' (- 7)]\<rparr>)
   \<and> trading_enabled (online\<lparr>positions := [demo_position ''ESH5'' (- 7)]\<rparr>)
   \<and> fst (close_position accepting_world
            (online\<lparr>positions := [demo_position ''ESH5'' (- 7)]\<rparr>) ''ESH5'') = Inr True
   \<and> calls (snd (close_position accepting_world
                   (online\<lparr>positions := [demo_position ''ESH5'' (- 7)]\<rparr>) ''ESH5''))
       = [SubmitOrder ''ESH5'' ''CME'' ''B'' 5 R_MARKET None None]"
  using close_position_cases [of online "''ESH5''" accepting_world]
    close_position_cases [of "online\<lparr>positions := [demo_position ''ESH5'' 0]\<rparr>" "''ESH5''"
      accepting_world]
    close_position_cases [of "online\<lparr>positions := [demo_position ''ESH5'' (- 7)]\<rparr>" "''ESH5''"
      accepting_world]
  by (simp add: scenario_defs operation_defs)

text \<open>
  C6, as stated, fails for a disconnected client with two open positions: the first close
  raises NotConnected, the loop is left, and the call returns neither true nor false.
\<close>

theorem close_all_positions_offline_raises:
  "close_all_positions accepting_world (two_positions\<lparr>connected := False\<rparr>)
     = (Inl NotConnected, two_positions\<lparr>connected := False\<rparr>)
   \<and> fst (close_all_positions accepting_world (two_positions\<lparr>connected := False\<rparr>)) \<noteq> Inr False
   \<and> fst (close_all_positions accepting_world (two_positions\<lparr>connected := False\<rparr>)) \<noteq> Inr True"
  by (simp add: scenario_defs operation_defs)

text \<open>
  C6 (amended). For every ledger state of a connected client, \<open>close_all_positions\<close>
  calls \<open>close_position\<close> for every known symbol in turn, also after an earlier close
  failed: its final state is the one reached by attempting every symbol, there is one
  outcome per ledger entry, every outcome is success or failure, and the returned result
  is the logical AND of the outcomes.
\<close>

theorem close_all_positions_continues:
  assumes "connected s"
  shows "close_all_positions w s =
           (Inr (list_all (\<lambda>r. r = Inr True)
                   (fst (spec_attempt_every_symbol w s (map fst (positions s))))),
            snd (spec_attempt_every_symbol w s (map fst (positions s))))
       \<and> length (fst (spec_attempt_every_symbol w s (map fst (positions s))))
           = length (positions s)
       \<and> (\<forall>r \<in> set (fst (spec_attempt_every_symbol w s (map fst (positions s)))).
             r = Inr True \<or> r = Inr False)"
  using assms
  by (auto simp: close_all_positions_def close_all_loop_spec spec_attempt_length
      dest: spec_attempt_outcomes)

theorem close_all_positions_continues_witness:
  "connected two_positions
   \<and> fst (spec_attempt_every_symbol selective_world two_positions
            (map fst (positions two_positions)))
       = [Inr False, Inr True]
   \<and> fst (close_all_positions selective_world two_positions) = Inr False
   \<and> calls (snd (close_all_positions selective_world two_positions))
       = [SubmitOrder ''NQH5'' ''CME'' ''S'' 1 R_MARKET None None,
          SubmitOrder ''ESH5'' ''CME'' ''S'' 2 R_MARKET None None]"
  using close_all_positions_continues [of two_positions selective_world]
  by (simp add: scenario_defs operation_defs)

section \<open>Signals and the emergency stop\<close>

text \<open>
  C7, as stated, fails for a signal above the quantity cap: a LONG signal for 10
  contracts with a stop at 4500, cap 5, gives a MARKET order of 5 and a STOP order of 5,
  not of 10.
\<close>

theorem execute_signal_clamps_counterexample:
  "connected online \<and> trading_enabled online
   \<and> calls (snd (execute_signal accepting_world online (long_signal 10 (Some 4500))))
       = [SubmitOrder ''ESH5'' ''CME'' ''B'' 5 R_MARKET None None,
          SubmitOrder ''ESH5'' ''CME'' ''S'' 5 R_STOP_MARKET None (Some 4500)]
   \<and> calls (snd (execute_signal accepting_world online (long_signal 10 (Some 4500))))
       \<noteq> [SubmitOrder ''ESH5'' ''CME'' ''B'' 10 R_MARKET None None,
          SubmitOrder ''ESH5'' ''CME'' ''S'' 10 R_STOP_MARKET None (Some 4500)]"
  by (simp add: scenario_defs operation_defs)

text \<open>
  C7 (amended). Executing a LONG (or SHORT) signal for n contracts while connected and
  trading-enabled submits to the Broker Link: nothing when the daily loss limit is
  exceeded; otherwise one MARKET order of min(n, \<open>max_contracts\<close>) contracts on the entry
  side, followed, when a non-zero stop price is supplied and the venue accepted the entry,
  by one STOP order of min(n, \<open>max_contracts\<close>) contracts on the opposite side at that
  stop price, and by nothing else.
\<close>

theorem execute_signal_submissions:
  assumes "connected s" and "trading_enabled s"
      and "signal_type signal = ''LONG'' \<and> entry = BUY \<and> exit = SELL
         \<or> signal_type signal = ''SHORT'' \<and> entry = SELL \<and> exit = BUY"
  shows "calls (snd (execute_signal w s signal)) = calls s @
           (if daily_pnl s < - max_daily_loss (config s) then []
            else submit_call (sig_symbol signal) entry (capped s (contracts signal)) MARKET None None
              # (if truthy (stop_loss signal)
                      \<and> venue_submit_order w (calls s)
                          (submit_call (sig_symbol signal) entry (capped s (contracts signal))
                             MARKET None None) \<noteq> Raised
                 then [submit_call (sig_symbol signal) exit (capped s (contracts signal)) STOP None
                         (stop_loss signal)]
                 else []))"
proof -
  have "signal_body w s signal = entry_with_stop w s signal entry exit"
    using assms(3) by (auto simp: signal_body_def)
  then have "snd (execute_signal w s signal) = snd (entry_with_stop w s signal entry exit)"
    using assms(1,2) by (simp add: execute_signal_def snd_case_result)
  then show ?thesis
    using entry_with_stop_calls [OF assms(1,2)] by simp
qed

theorem execute_signal_submissions_witness:
  "connected online \<and> trading_enabled online
   \<and> signal_type (long_signal 2 (Some 4500)) = ''LONG''
   \<and> calls (snd (execute_signal accepting_world online (long_signal 2 (Some 4500))))
       = [SubmitOrder ''ESH5'' ''CME'' ''B'' 2 R_MARKET None None,
          SubmitOrder ''ESH5'' ''CME'' ''S'' 2 R_STOP_MARKET None (Some 4500)]"
  using execute_signal_submissions [of online "long_signal 2 (Some 4500)" BUY SELL accepting_world]
  by (simp add: scenario_defs operation_defs)

text \<open>
  C4, as stated, fails: the venue refuses \<open>cancel_all_orders\<close>, so that step reports
  failure, and the emergency stop still reports success.
\<close>

theorem emergency_stop_ignores_results:
  "connected online
   \<and> fst (cancel_all_orders failing_world (disable_trading online)) = Inr False
   \<and> fst (emergency_stop failing_world online) = Inr True"
  by (simp add: scenario_defs operation_defs)

text \<open>
  C4 (amended). While connected, the emergency stop disables trading, then calls
  \<open>cancel_all_orders\<close>, then calls \<open>close_all_positions\<close> on the state the cancel step
  left, whatever the cancel step returned; both steps return a result, trading is disabled
  at the end, and the reported success is true whatever the two results are. While
  disconnected it disables trading and fails with NotConnected in the cancel step.
\<close>

theorem emergency_stop_reports_success:
  "(connected s \<longrightarrow>
      emergency_stop w s =
        (Inr True, snd (close_all_positions w (snd (cancel_all_orders w (disable_trading s)))))
    \<and> (\<exists>b1 b2. fst (cancel_all_orders w (disable_trading s)) = Inr b1
          \<and> fst (close_all_positions w (snd (cancel_all_orders w (disable_trading s)))) = Inr b2)
    \<and> \<not> trading_enabled (snd (emergency_stop w s)))
   \<and> (\<not> connected s \<longrightarrow> emergency_stop w s = (Inl NotConnected, disable_trading s))"
proof (intro conjI impI)
  assume c: "connected s"
  define s1 where "s1 = disable_trading s"
  obtain r2 s2 where p2: "cancel_all_orders w s1 = (r2, s2)"
    by (cases "cancel_all_orders w s1")
  obtain r3 s3 where p3: "close_all_positions w s2 = (r3, s3)"
    by (cases "close_all_positions w s2")
  have c1: "connected s1" and d1: "\<not> trading_enabled s1"
    using c by (simp_all add: s1_def disable_trading_def)
  have "fst (cancel_all_orders w s1) = Inr (venue_cancel_all_orders w (calls s1) \<noteq> Raised)"
    and "connected (snd (cancel_all_orders w s1))"
    and "\<not> trading_enabled (snd (cancel_all_orders w s1))"
    using cancel_all_orders_returns [OF c1] d1 by simp_all
  then have r2: "r2 = Inr (venue_cancel_all_orders w (calls s1) \<noteq> Raised)"
    and c2: "connected s2" and d2: "\<not> trading_enabled s2"
    by (simp_all add: p2)
  have "close_all_positions w s2 =
      (Inr (list_all (\<lambda>r. r = Inr True)
              (fst (spec_attempt_every_symbol w s2 (map fst (positions s2))))),
       snd (spec_attempt_every_symbol w s2 (map fst (positions s2))))"
    using c2 by (simp add: close_all_positions_def close_all_loop_spec)
  then have r3: "r3 = Inr (list_all (\<lambda>r. r = Inr True)
             (fst (spec_attempt_every_symbol w s2 (map fst (positions s2)))))"
    and s3: "s3 = snd (spec_attempt_every_symbol w s2 (map fst (positions s2)))"
    by (simp_all add: p3)
  have e: "emergency_stop w s = (Inr True, s3)"
    by (simp add: emergency_stop_def s1_def [symmetric] p2 p3 r2 r3)
  show "emergency_stop w s =
      (Inr True, snd (close_all_positions w (snd (cancel_all_orders w (disable_trading s)))))"
    by (simp add: e s1_def [symmetric] p2 p3)
  show "\<exists>b1 b2. fst (cancel_all_orders w (disable_trading s)) = Inr b1
          \<and> fst (close_all_positions w (snd (cancel_all_orders w (disable_trading s)))) = Inr b2"
    by (simp add: s1_def [symmetric] p2 p3 r2 r3)
  show "\<not> trading_enabled (snd (emergency_stop w s))"
    using spec_attempt_stays_disabled [OF d2] by (simp add: e s3)
next
  assume "\<not> connected s"
  then show "emergency_stop w s = (Inl NotConnected, disable_trading s)"
    by (simp add: emergency_stop_def cancel_all_orders_def disable_trading_def)
qed

theorem emergency_stop_reports_success_witness:
  "connected online
   \<and> emergency_stop failing_world online
       = (Inr True, (disable_trading online)\<lparr>calls := [CancelAllOrders]\<rparr>)
   \<and> \<not> connected (init_client demo_config)
   \<and> emergency_stop failing_world (init_client demo_config)
       = (Inl NotConnected, disable_trading (init_client demo_config))"
  using emergency_stop_reports_success [of online failing_world]
    emergency_stop_reports_success [of "init_client demo_config" failing_world]
  by (simp add: scenario_defs operation_defs)

text \<open>
  Since the emergency stop disables trading first, every \<open>place_order\<close> call of its
  closing step is refused: the only Broker Link call of a connected emergency stop is the
  cancellation, and the ledger is left as it was.
\<close>

lemma emergency_stop_submits_no_order:
  assumes "connected s"
  shows "calls (snd (emergency_stop w s)) = calls s @ [CancelAllOrders]
       \<and> positions (snd (emergency_stop w s)) = positions s"
proof -
  define s1 where "s1 = disable_trading s"
  obtain r2 s2 where p2: "cancel_all_orders w s1 = (r2, s2)"
    by (cases "cancel_all_orders w s1")
  have c1: "connected s1" and d1: "\<not> trading_enabled s1"
    using assms by (simp_all add: s1_def disable_trading_def)
  have "fst (cancel_all_orders w s1) = Inr (venue_cancel_all_orders w (calls s1) \<noteq> Raised)"
    and "connected (snd (cancel_all_orders w s1))"
    and "\<not> trading_enabled (snd (cancel_all_orders w s1))"
    and "calls (snd (cancel_all_orders w s1)) = calls s1 @ [CancelAllOrders]"
    using cancel_all_orders_returns [OF c1] d1 by simp_all
  then have r2: "r2 = Inr (venue_cancel_all_orders w (calls s1) \<noteq> Raised)"
    and c2: "connected s2" and d2: "\<not> trading_enabled s2"
    and l2: "calls s2 = calls s1 @ [CancelAllOrders]"
    by (simp_all add: p2)
  have "positions (snd (cancel_all_orders w s1)) = positions s1"
    by (simp add: cancel_all_orders_def Let_def split: outcome.splits)
  then have "positions s2 = positions s1" by (simp add: p2)
  then have q2: "positions s2 = positions s" by (simp add: s1_def disable_trading_def)
  have "close_all_positions w s2 =
      (Inr (list_all (\<lambda>r. r = Inr True)
              (fst (spec_attempt_every_symbol w s2 (map fst (positions s2))))), s2)"
    using c2 d2
    by (simp add: close_all_positions_def close_all_loop_spec spec_attempt_while_disabled)
  then have "snd (emergency_stop w s) = s2"
    by (simp add: emergency_stop_def s1_def [symmetric] p2 r2)
  then show ?thesis
    using l2 q2 by (simp add: s1_def disable_trading_def)
qed

end
